theory Spec2Isabelle
  imports Complex_Main "HOL-Library.AList" "HOL-Library.Sublist"
    "HOL-Library.List_Lexorder" "HOL-Library.Char_ord"
begin

section \<open>Python values decoded from JSON\<close>

text \<open>
  The module \<^verbatim>\<open>beetsplug/fetchart/itunes.py\<close> works on the values that
  \<^verbatim>\<open>json.loads\<close> returns: \<^verbatim>\<open>None\<close>, booleans, integers, floats, strings,
  lists and dictionaries. A dictionary is an association list in insertion order; the
  first binding of a key is the one a lookup sees, and \<open>AList.update\<close> is the assignment
  \<^verbatim>\<open>d[k] = v\<close>. Floats are modelled by the exact rational they denote.
\<close>

datatype json = JNull | JBool bool | JInt int | JFloat rat | JStr string
  | JList "json list" | JDict "(string \<times> json) list"

datatype error =
    ServiceException string json
  | KeyError string
  | AttributeError string
  | TypeError
  | UnboundLocalError string
  | TransportError string

fun ebind :: "error + 'a \<Rightarrow> ('a \<Rightarrow> error + 'b) \<Rightarrow> error + 'b" where
  "ebind (Inl e) f = Inl e"
| "ebind (Inr x) f = f x"

text \<open>Truth value of a Python value, as \<^verbatim>\<open>if v:\<close> tests it.\<close>

fun truthy :: "json \<Rightarrow> bool" where
  "truthy JNull = False"
| "truthy (JBool b) = b"
| "truthy (JInt i) = (i \<noteq> 0)"
| "truthy (JFloat r) = (r \<noteq> 0)"
| "truthy (JStr s) = (s \<noteq> [])"
| "truthy (JList xs) = (xs \<noteq> [])"
| "truthy (JDict d) = (d \<noteq> [])"

text \<open>
  Python's \<^verbatim>\<open>==\<close> on these values: numbers (booleans included) compare by value,
  lists element by element, dictionaries as mappings. \<open>norm\<close> computes a canonical
  representative and \<open>py_eq\<close> compares representatives.
\<close>

fun norm :: "json \<Rightarrow> json" where
  "norm JNull = JNull"
| "norm (JBool b) = JFloat (if b then 1 else 0)"
| "norm (JInt i) = JFloat (of_int i)"
| "norm (JFloat r) = JFloat r"
| "norm (JStr s) = JStr s"
| "norm (JList xs) = JList (map norm xs)"
| "norm (JDict d) =
     JDict (sort_key fst (AList.clearjunk (map (\<lambda>kv. (fst kv, norm (snd kv))) d)))"

definition py_eq :: "json \<Rightarrow> json \<Rightarrow> bool" where
  "py_eq a b = (norm a = norm b)"

text \<open>\<^verbatim>\<open>k in x\<close> for a string \<open>k\<close>.\<close>

fun py_contains :: "json \<Rightarrow> string \<Rightarrow> error + bool" where
  "py_contains (JDict d) k = Inr (map_of d k \<noteq> None)"
| "py_contains (JList xs) k = Inr (JStr k \<in> set xs)"
| "py_contains (JStr s) k = Inr (sublist k s)"
| "py_contains _ k = Inl TypeError"

text \<open>\<^verbatim>\<open>x[k]\<close> for a string \<open>k\<close>.\<close>

fun py_getitem :: "json \<Rightarrow> string \<Rightarrow> error + json" where
  "py_getitem (JDict d) k = (case map_of d k of None \<Rightarrow> Inl (KeyError k) | Some v \<Rightarrow> Inr v)"
| "py_getitem _ k = Inl TypeError"

text \<open>\<^verbatim>\<open>x.get(k, default)\<close>.\<close>

fun py_get :: "json \<Rightarrow> string \<Rightarrow> json \<Rightarrow> error + json" where
  "py_get (JDict d) k dflt = Inr (case map_of d k of None \<Rightarrow> dflt | Some v \<Rightarrow> v)"
| "py_get _ k dflt = Inl (AttributeError ''get'')"

text \<open>\<^verbatim>\<open>for result in x\<close>: the elements the loop visits.\<close>

fun py_iter :: "json \<Rightarrow> error + json list" where
  "py_iter (JList xs) = Inr xs"
| "py_iter (JDict d) = Inr (map (\<lambda>kv. JStr (fst kv)) (AList.clearjunk d))"
| "py_iter (JStr s) = Inr (map (\<lambda>c. JStr [c]) s)"
| "py_iter _ = Inl TypeError"

text \<open>\<^verbatim>\<open>x > 0\<close>.\<close>

fun py_gt0 :: "json \<Rightarrow> error + bool" where
  "py_gt0 (JInt i) = Inr (i > 0)"
| "py_gt0 (JFloat r) = Inr (r > 0)"
| "py_gt0 (JBool b) = Inr b"
| "py_gt0 _ = Inl TypeError"

text \<open>
  \<^verbatim>\<open>round(x, n)\<close>: an integer (or boolean) comes back as the same integer; a float is
  rounded to \<open>n\<close> decimals, ties to even.
\<close>

definition round_half_even :: "rat \<Rightarrow> int" where
  "round_half_even x =
     (let f = \<lfloor>x\<rfloor>; d = x - of_int f
      in if d < 1 / 2 then f else if d > 1 / 2 then f + 1 else if even f then f else f + 1)"

definition round_to :: "nat \<Rightarrow> rat \<Rightarrow> rat" where
  "round_to n x = of_int (round_half_even (x * 10 ^ n)) / 10 ^ n"

fun py_round :: "json \<Rightarrow> nat \<Rightarrow> error + json" where
  "py_round (JInt i) n = Inr (JInt i)"
| "py_round (JBool b) n = Inr (JInt (if b then 1 else 0))"
| "py_round (JFloat r) n = Inr (JFloat (round_to n r))"
| "py_round _ n = Inl TypeError"

text \<open>\<^verbatim>\<open>x / 1000.0\<close>.\<close>

fun py_div1000 :: "json \<Rightarrow> error + json" where
  "py_div1000 (JInt i) = Inr (JFloat (of_int i / 1000))"
| "py_div1000 (JBool b) = Inr (JFloat ((if b then 1 else 0) / 1000))"
| "py_div1000 (JFloat r) = Inr (JFloat (r / 1000))"
| "py_div1000 _ = Inl TypeError"

text \<open>\<^verbatim>\<open>x.split('T')[0]\<close>.\<close>

fun py_split_T_0 :: "json \<Rightarrow> error + json" where
  "py_split_T_0 (JStr s) = Inr (JStr (takeWhile (\<lambda>c. c \<noteq> CHR ''T'') s))"
| "py_split_T_0 _ = Inl (AttributeError ''split'')"

section \<open>Result objects\<close>

text \<open>
  An instance of \<^verbatim>\<open>Item\<close> or of one of its subclasses is its class, its
  \<^verbatim>\<open>id\<close> (assigned by \<^verbatim>\<open>Item.__init__\<close>, a decoded JSON value) and the
  dictionary of its other attributes. An attribute that was never assigned is not in the
  dictionary.
\<close>

datatype cls = Item | Artist | Album | Track

datatype obj = Inst (cls_of: cls) (id_of: json) (attrs: "(string \<times> pyval) list")
  and pyval = Json json | Obj obj

definition setattr :: "obj \<Rightarrow> string \<Rightarrow> pyval \<Rightarrow> obj" where
  "setattr self k v = Inst (cls_of self) (id_of self) (AList.update k v (attrs self))"

definition getattr :: "obj \<Rightarrow> string \<Rightarrow> error + pyval" where
  "getattr self k = (case map_of (attrs self) k of None \<Rightarrow> Inl (AttributeError k) | Some v \<Rightarrow> Inr v)"

text \<open>\<^verbatim>\<open>Item.__init__\<close>, which every subclass constructor calls unchanged.\<close>

definition Item_init :: "cls \<Rightarrow> json \<Rightarrow> obj" where
  "Item_init c i = Inst c i [(''name'', Json JNull), (''url'', Json JNull)]"

definition Item_set_genre :: "obj \<Rightarrow> json \<Rightarrow> error + obj" where
  "Item_set_genre self j =
     ebind (py_get j ''primaryGenreName'' JNull) (\<lambda>v. Inr (setattr self ''genre'' (Json v)))"

definition Item_set_release :: "obj \<Rightarrow> json \<Rightarrow> error + obj" where
  "Item_set_release self j =
     (let self = setattr self ''release_date'' (Json JNull) in
      ebind (py_contains j ''releaseDate'') (\<lambda>c.
        if c then
          ebind (py_getitem j ''releaseDate'') (\<lambda>v.
            if truthy v then
              ebind (py_split_T_0 v) (\<lambda>d. Inr (setattr self ''release_date'' (Json d)))
            else Inr self)
        else Inr self))"

definition Item_set_country :: "obj \<Rightarrow> json \<Rightarrow> error + obj" where
  "Item_set_country self j =
     ebind (py_get j ''country'' JNull) (\<lambda>v. Inr (setattr self ''country_store'' (Json v)))"

text \<open>One \<^verbatim>\<open>if src in json: self.artwork[key] = json[src]\<close> of \<^verbatim>\<open>_set_artwork\<close>.\<close>

definition artwork_step :: "json \<Rightarrow> string \<Rightarrow> string \<Rightarrow> (string \<times> json) list
    \<Rightarrow> error + (string \<times> json) list" where
  "artwork_step j src key a =
     ebind (py_contains j src) (\<lambda>c.
       if c then ebind (py_getitem j src) (\<lambda>v. Inr (AList.update key v a)) else Inr a)"

definition Item_set_artwork :: "obj \<Rightarrow> json \<Rightarrow> error + obj" where
  "Item_set_artwork self j =
     ebind (artwork_step j ''artworkUrl30'' ''30'' []) (\<lambda>a.
     ebind (artwork_step j ''artworkUrl60'' ''60'' a) (\<lambda>a.
     ebind (artwork_step j ''artworkUrl100'' ''100'' a) (\<lambda>a.
     ebind (artwork_step j ''artworkUrl512'' ''512'' a) (\<lambda>a.
     ebind (artwork_step j ''artworkUrl1100'' ''1100'' a) (\<lambda>a.
       Inr (setattr self ''artwork'' (Json (JDict a))))))))"

definition Item_set_url :: "obj \<Rightarrow> json \<Rightarrow> error + obj" where
  "Item_set_url self j =
     (let self = setattr self ''url'' (Json JNull) in
      ebind (py_contains j ''trackViewUrl'') (\<lambda>c1.
        if c1 then
          ebind (py_getitem j ''trackViewUrl'') (\<lambda>v. Inr (setattr self ''url'' (Json v)))
        else
          ebind (py_contains j ''collectionViewUrl'') (\<lambda>c2.
            if c2 then
              ebind (py_getitem j ''collectionViewUrl'') (\<lambda>v. Inr (setattr self ''url'' (Json v)))
            else
              ebind (py_contains j ''artistViewUrl'') (\<lambda>c3.
                if c3 then
                  ebind (py_getitem j ''artistViewUrl'') (\<lambda>v. Inr (setattr self ''url'' (Json v)))
                else Inr self))))"

text \<open>\<^verbatim>\<open>Item._set\<close>.\<close>

definition Item_set :: "obj \<Rightarrow> json \<Rightarrow> error + obj" where
  "Item_set self j =
     (let self = setattr self ''json'' (Json j) in
      ebind (py_contains j ''kind'') (\<lambda>c.
      ebind (if c then py_getitem j ''kind'' else py_getitem j ''wrapperType'') (\<lambda>t.
      ebind (Item_set_genre (setattr self ''type'' (Json t)) j) (\<lambda>self.
      ebind (Item_set_release self j) (\<lambda>self.
      ebind (Item_set_country self j) (\<lambda>self.
      ebind (Item_set_artwork self j) (\<lambda>self.
      Item_set_url self j)))))))"

text \<open>\<^verbatim>\<open>Artist._set\<close>.\<close>

definition Artist_set :: "obj \<Rightarrow> json \<Rightarrow> error + obj" where
  "Artist_set self j =
     ebind (Item_set self j) (\<lambda>self.
     ebind (py_getitem j ''artistName'') (\<lambda>n.
     ebind (py_get j ''amgArtistId'' JNull) (\<lambda>amg.
     ebind (py_get j ''artistLinkUrl'' JNull) (\<lambda>link.
     ebind (py_get j ''artistViewUrl'' link) (\<lambda>u.
       Inr (setattr (setattr (setattr self ''name'' (Json n)) ''amg_id'' (Json amg))
              ''url'' (Json u)))))))"

text \<open>
  \<^verbatim>\<open>Album._set_artist\<close> and \<^verbatim>\<open>Track._set_artist\<close> have the same body. The
  attribute is assigned \<^verbatim>\<open>None\<close> first; an exception of the nested
  \<^verbatim>\<open>Artist._set\<close> leaves the method before the caller can observe the new artist.
\<close>

definition set_artist :: "obj \<Rightarrow> json \<Rightarrow> error + obj" where
  "set_artist self j =
     (let self = setattr self ''artist'' (Json JNull) in
      ebind (py_get j ''artistId'' JNull) (\<lambda>a.
        if truthy a then
          ebind (py_getitem j ''artistId'') (\<lambda>i.
          ebind (Artist_set (Item_init Artist i) j) (\<lambda>art.
            Inr (setattr self ''artist'' (Obj art))))
        else Inr self))"

definition Album_set_artist :: "obj \<Rightarrow> json \<Rightarrow> error + obj" where
  "Album_set_artist = set_artist"

definition Track_set_artist :: "obj \<Rightarrow> json \<Rightarrow> error + obj" where
  "Track_set_artist = set_artist"

text \<open>\<^verbatim>\<open>x or 0\<close>.\<close>

definition or_0 :: "json \<Rightarrow> json" where
  "or_0 v = (if truthy v then v else JInt 0)"

text \<open>\<^verbatim>\<open>Album._set\<close>.\<close>

definition Album_set :: "obj \<Rightarrow> json \<Rightarrow> error + obj" where
  "Album_set self j =
     ebind (Item_set self j) (\<lambda>self.
     ebind (py_getitem j ''collectionName'') (\<lambda>n.
     ebind (py_get j ''collectionViewUrl'' JNull) (\<lambda>u.
     ebind (py_get j ''amgAlbumId'' JNull) (\<lambda>amg.
     ebind (py_get j ''collectionPrice'' (JInt 0)) (\<lambda>p.
     ebind (py_round (or_0 p) 4) (\<lambda>price.
     ebind (py_getitem j ''currency'') (\<lambda>cur.
     ebind (py_getitem j ''trackCount'') (\<lambda>tc.
     ebind (py_get j ''copyright'' JNull) (\<lambda>cr.
       Album_set_artist
         (setattr (setattr (setattr (setattr (setattr (setattr (setattr self
            ''name'' (Json n)) ''url'' (Json u)) ''amg_id'' (Json amg)) ''price'' (Json price))
            ''price_currency'' (Json cur)) ''track_count'' (Json tc)) ''copyright'' (Json cr))
         j)))))))))"

text \<open>\<^verbatim>\<open>Track._set_album\<close>: without a \<^verbatim>\<open>collectionId\<close> nothing is assigned.\<close>

definition Track_set_album :: "obj \<Rightarrow> json \<Rightarrow> error + obj" where
  "Track_set_album self j =
     ebind (py_contains j ''collectionId'') (\<lambda>c.
       if c then
         ebind (py_getitem j ''collectionId'') (\<lambda>i.
         ebind (Album_set (Item_init Album i) j) (\<lambda>alb.
           Inr (setattr self ''album'' (Obj alb))))
       else Inr self)"

text \<open>\<^verbatim>\<open>try: body except KeyError: self.attr = None\<close>.\<close>

definition except_KeyError :: "obj \<Rightarrow> string \<Rightarrow> error + obj \<Rightarrow> error + obj" where
  "except_KeyError self attr r =
     (case r of
        Inl (KeyError k) \<Rightarrow> Inr (setattr self attr (Json JNull))
      | Inl e \<Rightarrow> Inl e
      | Inr self' \<Rightarrow> Inr self')"

text \<open>\<^verbatim>\<open>Track._set\<close>.\<close>

definition Track_price :: "json \<Rightarrow> error + json" where
  "Track_price j =
     ebind (py_contains j ''trackPrice'') (\<lambda>c.
       if c then
         ebind (py_getitem j ''trackPrice'') (\<lambda>p.
           if p \<noteq> JNull then ebind (py_getitem j ''trackPrice'') (\<lambda>p. py_round p 4)
           else Inr JNull)
       else Inr JNull)"

definition Track_duration :: "json \<Rightarrow> error + json" where
  "Track_duration j =
     ebind (py_contains j ''trackTimeMillis'') (\<lambda>c.
       if c then
         ebind (py_getitem j ''trackTimeMillis'') (\<lambda>t.
           if t \<noteq> JNull then
             ebind (py_get j ''trackTimeMillis'' (JFloat 0)) (\<lambda>ms.
             ebind (py_div1000 ms) (\<lambda>s. py_round s 2))
           else Inr JNull)
       else Inr JNull)"

definition Track_set :: "obj \<Rightarrow> json \<Rightarrow> error + obj" where
  "Track_set self j =
     ebind (Item_set self j) (\<lambda>self.
     ebind (py_getitem j ''trackName'') (\<lambda>n.
     ebind (py_get j ''trackViewUrl'' JNull) (\<lambda>u.
     ebind (py_get j ''previewUrl'' JNull) (\<lambda>pu.
     ebind (Track_price j) (\<lambda>price.
     ebind (py_get j ''trackNumber'' JNull) (\<lambda>num.
     ebind (Track_duration j) (\<lambda>dur.
       (let self = setattr (setattr (setattr (setattr (setattr (setattr self
                     ''name'' (Json n)) ''url'' (Json u)) ''preview_url'' (Json pu))
                     ''price'' (Json price)) ''number'' (Json num)) ''duration'' (Json dur)
        in ebind (except_KeyError self ''artist'' (Track_set_artist self j)) (\<lambda>self.
             except_KeyError self ''album'' (Track_set_album self j))))))))))"

text \<open>The method \<^verbatim>\<open>_set\<close> that an instance of each class answers to.\<close>

definition obj_set :: "obj \<Rightarrow> json \<Rightarrow> error + obj" where
  "obj_set self j =
     (case cls_of self of
        Item \<Rightarrow> Item_set self j
      | Artist \<Rightarrow> Artist_set self j
      | Album \<Rightarrow> Album_set self j
      | Track \<Rightarrow> Track_set self j)"

section \<open>Queries\<close>

text \<open>
  A \<^verbatim>\<open>Search\<close> or \<^verbatim>\<open>Lookup\<close> object: the method name given to
  \<^verbatim>\<open>_BaseObject.__init__\<close> and the dictionary \<^verbatim>\<open>_search_terms\<close>.
\<close>

datatype query = Query (method_of: string) (search_terms: "(string \<times> json) list")

text \<open>
  \<^verbatim>\<open>Search.__init__\<close>. The comparison \<^verbatim>\<open>offset > 0\<close> raises for an offset that is
  not a number, so the constructor can fail.
\<close>

definition Search_init :: "json \<Rightarrow> json \<Rightarrow> json \<Rightarrow> json \<Rightarrow> json \<Rightarrow> json \<Rightarrow> json \<Rightarrow> json
    \<Rightarrow> json \<Rightarrow> json \<Rightarrow> json \<Rightarrow> error + query" where
  "Search_init query country media entity attribute offset limit order lang version explicit =
     (let t = AList.update ''term'' query [];
          t = AList.update ''country'' country t;
          t = AList.update ''media'' media t;
          t = (if truthy entity then AList.update ''entity'' entity t else t);
          t = (if truthy attribute then AList.update ''attribute'' attribute t else t);
          t = AList.update ''limit'' limit t
      in ebind (py_gt0 offset) (\<lambda>pos.
           (let t = (if pos then AList.update ''offset'' offset t else t);
                t = (if order \<noteq> JNull then AList.update ''order'' order t else t);
                t = AList.update ''lang'' lang t;
                t = AList.update ''version'' version t;
                t = AList.update ''explicit'' explicit t
            in Inr (Query ''search'' t))))"

text \<open>\<^verbatim>\<open>Lookup.__init__\<close>.\<close>

definition Lookup_init :: "json \<Rightarrow> json \<Rightarrow> json \<Rightarrow> json \<Rightarrow> query" where
  "Lookup_init i entity country limit =
     (let t = AList.update ''id'' i [];
          t = (if truthy entity then AList.update ''entity'' entity t else t);
          t = (if truthy country then AList.update ''country'' country t else t);
          t = AList.update ''limit'' limit t
      in Query ''lookup'' t)"

text \<open>\<^verbatim>\<open>_BaseObject._get_params\<close>: a copy of the search terms, key by key.\<close>

definition BaseObject_get_params :: "query \<Rightarrow> (string \<times> json) list" where
  "BaseObject_get_params self =
     fold (\<lambda>key params.
             case map_of (search_terms self) key of
               None \<Rightarrow> params
             | Some v \<Rightarrow> AList.update key v params)
          (map fst (search_terms self)) []"

text \<open>
  \<^verbatim>\<open>_Request.execute\<close> performs the HTTP request and decodes the answer. The remote
  service is a parameter \<open>srv\<close>: from the method name and the parameters to the decoded
  response, or to the exception that \<^verbatim>\<open>execute\<close> raises.
\<close>

type_synonym service = "string \<Rightarrow> (string \<times> json) list \<Rightarrow> error + json"

definition BaseObject_request :: "service \<Rightarrow> query \<Rightarrow> error + json" where
  "BaseObject_request srv self = srv (method_of self) (BaseObject_get_params self)"

text \<open>
  The part of \<^verbatim>\<open>_Request._download_response\<close> that builds the query string. The library
  functions \<^verbatim>\<open>str\<close> (on numbers) and \<^verbatim>\<open>urllib.parse.quote_plus\<close> are parameters.
  \<open>Request_data\<close> is the list \<^verbatim>\<open>data\<close> before it is joined with \<^verbatim>\<open>&\<close>.
\<close>

fun replace_amp :: "string \<Rightarrow> string" where
  "replace_amp [] = []"
| "replace_amp (c # cs) =
     (if take 5 (c # cs) = ''&amp;'' then CHR ''&'' # replace_amp (drop 4 cs)
      else c # replace_amp cs)"

fun param_text :: "(json \<Rightarrow> string) \<Rightarrow> json \<Rightarrow> error + string" where
  "param_text str_of (JStr s) = Inr s"
| "param_text str_of (JInt i) = Inr (str_of (JInt i))"
| "param_text str_of (JFloat r) = Inr (str_of (JFloat r))"
| "param_text str_of (JBool b) = Inr (str_of (JBool b))"
| "param_text str_of _ = Inl (AttributeError ''replace'')"

fun Request_data :: "(json \<Rightarrow> string) \<Rightarrow> (string \<Rightarrow> string) \<Rightarrow> (string \<times> json) list
    \<Rightarrow> string list \<Rightarrow> error + string list" where
  "Request_data str_of quote_plus params [] = Inr []"
| "Request_data str_of quote_plus params (name # names) =
     (case map_of params name of
        None \<Rightarrow> Inl (KeyError name)
      | Some v \<Rightarrow>
          ebind (param_text str_of v) (\<lambda>s.
          ebind (Request_data str_of quote_plus params names) (\<lambda>rest.
            Inr ((name @ ''='' @ quote_plus (replace_amp s)) # rest))))"

definition HOST_NAME :: string where
  "HOST_NAME = ''http://itunes.apple.com/''"

fun join_amp :: "string list \<Rightarrow> string" where
  "join_amp [] = []"
| "join_amp [s] = s"
| "join_amp (s # t # ts) = s @ ''&'' @ join_amp (t # ts)"

definition Request_url :: "(json \<Rightarrow> string) \<Rightarrow> (string \<Rightarrow> string) \<Rightarrow> string
    \<Rightarrow> (string \<times> json) list \<Rightarrow> error + string" where
  "Request_url str_of quote_plus meth params =
     ebind (Request_data str_of quote_plus params (map fst params)) (\<lambda>data.
       Inr (HOST_NAME @ meth @ ''?'' @ join_amp data))"

section \<open>The result dispatcher\<close>

text \<open>The variant tag of one entry: \<^verbatim>\<open>wrapperType\<close> first, else \<^verbatim>\<open>kind\<close>, else \<^verbatim>\<open>None\<close>.\<close>

definition entry_type :: "json \<Rightarrow> error + json" where
  "entry_type result =
     ebind (py_contains result ''wrapperType'') (\<lambda>c1.
       if c1 then py_getitem result ''wrapperType''
       else ebind (py_contains result ''kind'') (\<lambda>c2.
              if c2 then py_getitem result ''kind'' else Inr JNull))"

text \<open>
  The fallback branch of the loop body. The local variable \<^verbatim>\<open>id\<close> of
  \<^verbatim>\<open>get\<close> is \<open>idv\<close>: \<open>None\<close> while unbound, and it keeps the value of an earlier
  iteration when this one assigns nothing.
\<close>

definition fallback_id :: "json option \<Rightarrow> json \<Rightarrow> error + json option" where
  "fallback_id idv result =
     ebind (py_contains result ''collectionId'') (\<lambda>c1.
       if c1 then ebind (py_getitem result ''collectionId'') (\<lambda>i. Inr (Some i))
       else ebind (py_contains result ''artistId'') (\<lambda>c2.
              if c2 then ebind (py_getitem result ''artistId'') (\<lambda>i. Inr (Some i))
              else Inr idv))"

text \<open>One iteration of the loop of \<^verbatim>\<open>_BaseObject.get\<close>.\<close>

definition get_entry :: "json option \<Rightarrow> json \<Rightarrow> error + (json option \<times> obj)" where
  "get_entry idv result =
     ebind (entry_type result) (\<lambda>t.
       if py_eq t (JStr ''artist'') then
         ebind (py_getitem result ''artistId'') (\<lambda>i.
         ebind (obj_set (Item_init Artist i) result) (\<lambda>item. Inr (Some i, item)))
       else if py_eq t (JStr ''collection'') then
         ebind (py_getitem result ''collectionId'') (\<lambda>i.
         ebind (obj_set (Item_init Album i) result) (\<lambda>item. Inr (Some i, item)))
       else if py_eq t (JStr ''track'') then
         ebind (py_getitem result ''trackId'') (\<lambda>i.
         ebind (obj_set (Item_init Track i) result) (\<lambda>item. Inr (Some i, item)))
       else
         ebind (fallback_id idv result) (\<lambda>idv'.
           case idv' of
             None \<Rightarrow> Inl (UnboundLocalError ''id'')
           | Some i \<Rightarrow> ebind (obj_set (Item_init Item i) result) (\<lambda>item. Inr (idv', item))))"

fun get_loop :: "json option \<Rightarrow> json list \<Rightarrow> error + obj list" where
  "get_loop idv [] = Inr []"
| "get_loop idv (result # results) =
     ebind (get_entry idv result) (\<lambda>(idv', item).
     ebind (get_loop idv' results) (\<lambda>l. Inr (item # l)))"

text \<open>
  \<^verbatim>\<open>_BaseObject.get\<close>. The attributes \<^verbatim>\<open>_json_results\<close> and
  \<^verbatim>\<open>_num_results\<close> that it caches on the query are read by no operation modelled
  here; the function returns the list, or the exception that ends the call.
\<close>

definition BaseObject_get :: "service \<Rightarrow> query \<Rightarrow> error + obj list" where
  "BaseObject_get srv self =
     ebind (BaseObject_request srv self) (\<lambda>json_results.
     ebind (py_contains json_results ''errorMessage'') (\<lambda>c.
       if c then
         ebind (py_getitem json_results ''errorMessage'') (\<lambda>m.
           Inl (ServiceException ''Error'' m))
       else
         ebind (py_getitem json_results ''resultCount'') (\<lambda>num_results.
         ebind (py_getitem json_results ''results'') (\<lambda>rs.
         ebind (py_iter rs) (\<lambda>results. get_loop None results)))))"

section \<open>Navigation accessors and equality\<close>

text \<open>What an accessor returns: the item itself (or one other item), or a list.\<close>

datatype ret = One obj | Several "obj list"

text \<open>\<^verbatim>\<open>self.type == s\<close> for a string literal \<open>s\<close>.\<close>

definition type_is :: "obj \<Rightarrow> string \<Rightarrow> error + bool" where
  "type_is self s =
     ebind (getattr self ''type'') (\<lambda>t.
       case t of
         Json v \<Rightarrow> Inr (py_eq v (JStr s))
       | Obj other \<Rightarrow> Inl (AttributeError ''id''))"

definition Nothing_found :: error where
  "Nothing_found = ServiceException ''Error'' (JStr ''Nothing found!'')"


text \<open>\<^verbatim>\<open>Item.get_album\<close>.\<close>

definition Item_get_album :: "service \<Rightarrow> obj \<Rightarrow> error + obj" where
  "Item_get_album srv self =
     ebind (type_is self ''collection'') (\<lambda>coll.
       if coll then Inr self
       else
         ebind (BaseObject_get srv (Lookup_init (id_of self) (JStr ''album'') JNull (JInt 1)))
           (\<lambda>items.
              if items = [] \<or> length items = 1 then Inl Nothing_found
              else Inr (items ! 1)))"

text \<open>\<^verbatim>\<open>Item.get_albums\<close>.\<close>

definition Item_get_albums :: "service \<Rightarrow> obj \<Rightarrow> json \<Rightarrow> error + ret" where
  "Item_get_albums srv self limit =
     ebind (type_is self ''collection'') (\<lambda>coll.
       if coll then Inr (One self)
       else
         ebind (type_is self ''song'') (\<lambda>song.
           if song then ebind (Item_get_album srv self) (\<lambda>a. Inr (One a))
           else
             ebind (BaseObject_get srv (Lookup_init (id_of self) (JStr ''album'') JNull limit))
               (\<lambda>l. let items = drop 1 l in
                  if items = [] then Inl Nothing_found else Inr (Several (drop 1 items)))))"

text \<open>The free function \<^verbatim>\<open>lookup\<close>.\<close>

definition lookup :: "service \<Rightarrow> json \<Rightarrow> json \<Rightarrow> json \<Rightarrow> json \<Rightarrow> error + obj" where
  "lookup srv i entity country limit =
     ebind (BaseObject_get srv (Lookup_init i entity country limit)) (\<lambda>items.
       case items of [] \<Rightarrow> Inl Nothing_found | first # rest \<Rightarrow> Inr first)"

text \<open>
  \<^verbatim>\<open>Item.__eq__\<close> and \<^verbatim>\<open>Item.__ne__\<close>. The other operand is any value: \<^verbatim>\<open>None\<close> is
  \<open>Json JNull\<close>, and a value that is not an instance has no attribute \<^verbatim>\<open>id\<close>.
\<close>

fun Item_eq :: "obj \<Rightarrow> pyval \<Rightarrow> error + bool" where
  "Item_eq self (Json JNull) = Inr False"
| "Item_eq self (Obj other) = Inr (py_eq (id_of self) (id_of other))"
| "Item_eq self (Json v) = Inl (AttributeError ''id'')"

fun Item_ne :: "obj \<Rightarrow> pyval \<Rightarrow> error + bool" where
  "Item_ne self (Json JNull) = Inr False"
| "Item_ne self (Obj other) = Inr (\<not> py_eq (id_of self) (id_of other))"
| "Item_ne self (Json v) = Inl (AttributeError ''id'')"

section \<open>Auxiliary notions\<close>

text \<open>
  \<open>frame K s s'\<close>: the instance \<open>s'\<close> is \<open>s\<close> with at most the attributes in \<open>K\<close>
  reassigned; class and identifier are unchanged. The sets name the attributes that the
  \<^verbatim>\<open>_set\<close> method of each class assigns.
\<close>

definition frame :: "string set \<Rightarrow> obj \<Rightarrow> obj \<Rightarrow> bool" where
  "frame K s s' \<longleftrightarrow> cls_of s' = cls_of s \<and> id_of s' = id_of s \<and>
     (\<forall>k. k \<notin> K \<longrightarrow> getattr s' k = getattr s k)"

definition item_keys :: "string set" where
  "item_keys = {''json'', ''type'', ''genre'', ''release_date'', ''country_store'',
     ''artwork'', ''url''}"

definition artist_keys :: "string set" where
  "artist_keys = item_keys \<union> {''name'', ''amg_id''}"

definition album_keys :: "string set" where
  "album_keys = item_keys \<union> {''name'', ''amg_id'', ''price'', ''price_currency'',
     ''track_count'', ''copyright'', ''artist''}"

definition track_keys :: "string set" where
  "track_keys = item_keys \<union> {''name'', ''preview_url'', ''price'', ''number'',
     ''duration'', ''artist'', ''album''}"

text \<open>The keys that \<^verbatim>\<open>Search.__init__\<close> can store.\<close>

definition search_keys :: "string set" where
  "search_keys = {''term'', ''country'', ''media'', ''entity'', ''attribute'', ''limit'',
     ''offset'', ''order'', ''lang'', ''version'', ''explicit''}"

text \<open>
  The relation between an entry of the results array and the object built for it:
  \<open>entry_tag\<close> is the value of \<^verbatim>\<open>wrapperType\<close> if the entry has that key, else the
  value of \<^verbatim>\<open>kind\<close>, else \<^verbatim>\<open>None\<close>.
\<close>

abbreviation entry_tag :: "(string \<times> json) list \<Rightarrow> json" where
  "entry_tag d \<equiv>
     (case map_of d ''wrapperType'' of
        Some w \<Rightarrow> w
      | None \<Rightarrow> (case map_of d ''kind'' of Some k \<Rightarrow> k | None \<Rightarrow> JNull))"

abbreviation dispatched :: "json \<Rightarrow> obj \<Rightarrow> bool" where
  "dispatched r it \<equiv>
     (\<exists>d. r = JDict d \<and> getattr it ''json'' = Inr (Json (JDict d)) \<and>
        (map_of d ''wrapperType'' \<noteq> None \<or> map_of d ''kind'' \<noteq> None) \<and>
        (entry_tag d = JStr ''artist''
           \<longrightarrow> cls_of it = Artist \<and> map_of d ''artistId'' = Some (id_of it)) \<and>
        (entry_tag d = JStr ''collection''
           \<longrightarrow> cls_of it = Album \<and> map_of d ''collectionId'' = Some (id_of it)) \<and>
        (entry_tag d = JStr ''track''
           \<longrightarrow> cls_of it = Track \<and> map_of d ''trackId'' = Some (id_of it)) \<and>
        (entry_tag d \<notin> {JStr ''artist'', JStr ''collection'', JStr ''track''}
           \<longrightarrow> cls_of it = Item \<and>
               (case map_of d ''collectionId'' of
                  Some c \<Rightarrow> id_of it = c
                | None \<Rightarrow> (case map_of d ''artistId'' of Some a \<Rightarrow> id_of it = a | None \<Rightarrow> True))))"

subsection \<open>Example records\<close>

text \<open>
  Records of the shape the service returns, a response envelope around a results array,
  and an instance that has only its \<^verbatim>\<open>type\<close> assigned.
\<close>

definition artist_record :: json where
  "artist_record = JDict [(''wrapperType'', JStr ''artist''), (''artistId'', JInt 9),
     (''artistName'', JStr ''The Beatles'')]"

definition album_record :: "json \<Rightarrow> json" where
  "album_record price = JDict [(''wrapperType'', JStr ''collection''),
     (''collectionId'', JInt 401), (''collectionName'', JStr ''Abbey Road''),
     (''collectionPrice'', price), (''currency'', JStr ''USD''), (''trackCount'', JInt 17)]"


definition track_record :: json where
  "track_record = JDict [(''wrapperType'', JStr ''track''), (''kind'', JStr ''song''),
     (''trackId'', JInt 1001), (''trackName'', JStr ''Come Together''),
     (''artistId'', JInt 9), (''artistName'', JStr ''The Beatles''),
     (''collectionId'', JInt 401), (''collectionName'', JStr ''Abbey Road''),
     (''currency'', JStr ''USD''), (''trackCount'', JInt 17),
     (''trackPrice'', JFloat (129 / 100)), (''trackTimeMillis'', JInt 259947)]"

definition single_record :: json where
  "single_record = JDict [(''wrapperType'', JStr ''track''), (''kind'', JStr ''song''),
     (''trackId'', JInt 1002), (''trackName'', JStr ''Something''),
     (''artistId'', JInt 9), (''artistName'', JStr ''The Beatles'')]"

definition priceless_record :: json where
  "priceless_record = JDict [(''wrapperType'', JStr ''track''), (''kind'', JStr ''song''),
     (''trackId'', JInt 1003), (''trackName'', JStr ''Because''),
     (''collectionId'', JInt 401), (''collectionName'', JStr ''Abbey Road'')]"

definition audiobook_record :: json where
  "audiobook_record = JDict [(''wrapperType'', JStr ''audiobook''),
     (''collectionId'', JInt 401), (''artistId'', JInt 9),
     (''collectionName'', JStr ''Another Title''), (''country'', JStr ''GBR'')]"

definition response :: "json list \<Rightarrow> json" where
  "response rs = JDict [(''resultCount'', JInt (int (length rs))), (''results'', JList rs)]"

definition typed_item :: "cls \<Rightarrow> json \<Rightarrow> string \<Rightarrow> obj" where
  "typed_item c i t = setattr (Item_init c i) ''type'' (Json (JStr t))"

section \<open>Basic facts\<close>

lemma ebind_eq_Inr: "ebind m f = Inr y \<longleftrightarrow> (\<exists>x. m = Inr x \<and> f x = Inr y)"
  by (cases m) auto

lemma ebind_eq_Inl: "ebind m f = Inl e \<longleftrightarrow> (m = Inl e \<or> (\<exists>x. m = Inr x \<and> f x = Inl e))"
  by (cases m) auto

lemma cls_of_setattr [simp]: "cls_of (setattr s k v) = cls_of s"
  by (simp add: setattr_def)

lemma id_of_setattr [simp]: "id_of (setattr s k v) = id_of s"
  by (simp add: setattr_def)

lemma getattr_setattr [simp]:
  "getattr (setattr s k v) k' = (if k' = k then Inr v else getattr s k')"
  by (simp add: setattr_def getattr_def update_conv')

lemma py_eq_refl [simp]: "py_eq a a"
  by (simp add: py_eq_def)

lemma py_eq_JStr [simp]: "py_eq t (JStr s) \<longleftrightarrow> t = JStr s"
  by (cases t) (auto simp: py_eq_def)

subsection \<open>Rounding\<close>




subsection \<open>What the setters leave alone\<close>

lemma frame_refl [simp]: "frame K s s"
  by (simp add: frame_def)

lemma frame_setattr: "k \<in> K \<Longrightarrow> frame K s s' \<Longrightarrow> frame K s (setattr s' k v)"
  by (auto simp: frame_def)

lemma frame_trans: "frame K s s' \<Longrightarrow> frame K s' s'' \<Longrightarrow> frame K s s''"
  by (auto simp: frame_def)

lemma frame_mono: "frame K s s' \<Longrightarrow> K \<subseteq> K' \<Longrightarrow> frame K' s s'"
  by (auto simp: frame_def)

lemma Item_set_genre_frame: "Item_set_genre s j = Inr s' \<Longrightarrow> frame {''genre''} s s'"
  by (auto simp: Item_set_genre_def ebind_eq_Inr intro!: frame_setattr)

lemma Item_set_release_frame: "Item_set_release s j = Inr s' \<Longrightarrow> frame {''release_date''} s s'"
  by (auto simp: Item_set_release_def Let_def ebind_eq_Inr intro!: frame_setattr split: if_splits)

lemma Item_set_country_frame: "Item_set_country s j = Inr s' \<Longrightarrow> frame {''country_store''} s s'"
  by (auto simp: Item_set_country_def ebind_eq_Inr intro!: frame_setattr)

lemma Item_set_artwork_frame: "Item_set_artwork s j = Inr s' \<Longrightarrow> frame {''artwork''} s s'"
  by (auto simp: Item_set_artwork_def ebind_eq_Inr intro!: frame_setattr)

lemma Item_set_url_frame: "Item_set_url s j = Inr s' \<Longrightarrow> frame {''url''} s s'"
  by (auto simp: Item_set_url_def Let_def ebind_eq_Inr intro!: frame_setattr split: if_splits)

lemma Item_set_steps:
  assumes "Item_set s j = Inr s'"
  obtains t s1 s2 s3 s4 where
    "py_contains j ''kind'' = Inr True \<and> py_getitem j ''kind'' = Inr t
       \<or> py_contains j ''kind'' = Inr False \<and> py_getitem j ''wrapperType'' = Inr t"
    "Item_set_genre (setattr (setattr s ''json'' (Json j)) ''type'' (Json t)) j = Inr s1"
    "Item_set_release s1 j = Inr s2"
    "Item_set_country s2 j = Inr s3"
    "Item_set_artwork s3 j = Inr s4"
    "Item_set_url s4 j = Inr s'"
  using assms by (auto simp: Item_set_def Let_def ebind_eq_Inr split: if_splits)

lemma Item_set_frame:
  assumes "Item_set s j = Inr s'"
  shows "frame item_keys s s'"
proof -
  from assms obtain t s1 s2 s3 s4 where
    1: "Item_set_genre (setattr (setattr s ''json'' (Json j)) ''type'' (Json t)) j = Inr s1"
    and 2: "Item_set_release s1 j = Inr s2"
    and 3: "Item_set_country s2 j = Inr s3"
    and 4: "Item_set_artwork s3 j = Inr s4"
    and 5: "Item_set_url s4 j = Inr s'"
    by (rule Item_set_steps)
  have 0: "frame item_keys s (setattr (setattr s ''json'' (Json j)) ''type'' (Json t))"
    by (auto simp: item_keys_def intro!: frame_setattr)
  show ?thesis
    using 0 Item_set_genre_frame[OF 1] Item_set_release_frame[OF 2]
      Item_set_country_frame[OF 3] Item_set_artwork_frame[OF 4] Item_set_url_frame[OF 5]
    by (auto simp: frame_def item_keys_def)
qed

lemma Item_set_json:
  assumes "Item_set s j = Inr s'"
  shows "getattr s' ''json'' = Inr (Json j)"
proof -
  from assms obtain t s1 s2 s3 s4 where
    1: "Item_set_genre (setattr (setattr s ''json'' (Json j)) ''type'' (Json t)) j = Inr s1"
    and 2: "Item_set_release s1 j = Inr s2"
    and 3: "Item_set_country s2 j = Inr s3"
    and 4: "Item_set_artwork s3 j = Inr s4"
    and 5: "Item_set_url s4 j = Inr s'"
    by (rule Item_set_steps)
  show ?thesis
    using Item_set_genre_frame[OF 1] Item_set_release_frame[OF 2]
      Item_set_country_frame[OF 3] Item_set_artwork_frame[OF 4] Item_set_url_frame[OF 5]
    by (auto simp: frame_def)
qed

lemma Artist_set_frame:
  assumes "Artist_set s j = Inr s'"
  shows "frame artist_keys s s'"
proof -
  from assms obtain s1 n amg u where
    1: "Item_set s j = Inr s1"
    and 2: "s' = setattr (setattr (setattr s1 ''name'' (Json n)) ''amg_id'' (Json amg)) ''url'' (Json u)"
    by (auto simp: Artist_set_def ebind_eq_Inr)
  from Item_set_frame[OF 1] show ?thesis
    unfolding 2 by (auto simp: frame_def artist_keys_def item_keys_def)
qed

lemma set_artist_frame: "set_artist s j = Inr s' \<Longrightarrow> frame {''artist''} s s'"
  by (auto simp: set_artist_def Let_def ebind_eq_Inr intro!: frame_setattr split: if_splits)

lemma Album_set_steps:
  assumes "Album_set s j = Inr s'"
  obtains s1 n u amg p price cur tc cr where
    "Item_set s j = Inr s1"
    "py_getitem j ''collectionName'' = Inr n"
    "py_get j ''collectionPrice'' (JInt 0) = Inr p"
    "py_round (or_0 p) 4 = Inr price"
    "py_getitem j ''currency'' = Inr cur"
    "py_getitem j ''trackCount'' = Inr tc"
    "set_artist
         (setattr (setattr (setattr (setattr (setattr (setattr (setattr s1
            ''name'' (Json n)) ''url'' (Json u)) ''amg_id'' (Json amg)) ''price'' (Json price))
            ''price_currency'' (Json cur)) ''track_count'' (Json tc)) ''copyright'' (Json cr))
         j = Inr s'"
  using assms by (auto simp: Album_set_def Album_set_artist_def ebind_eq_Inr)

lemma Album_set_frame:
  assumes "Album_set s j = Inr s'"
  shows "frame album_keys s s'"
  using assms
proof (rule Album_set_steps)
  fix s1 n u amg p price cur tc cr
  assume 1: "Item_set s j = Inr s1"
    and a: "set_artist
         (setattr (setattr (setattr (setattr (setattr (setattr (setattr s1
            ''name'' (Json n)) ''url'' (Json u)) ''amg_id'' (Json amg)) ''price'' (Json price))
            ''price_currency'' (Json cur)) ''track_count'' (Json tc)) ''copyright'' (Json cr))
         j = Inr s'"
  from Item_set_frame[OF 1] set_artist_frame[OF a] show ?thesis
    by (auto simp: frame_def album_keys_def item_keys_def)
qed


lemma except_KeyError_frame:
  assumes "except_KeyError s k r = Inr s'" "\<And>s''. r = Inr s'' \<Longrightarrow> frame {k} s s''"
  shows "frame {k} s s'"
  using assms by (auto simp: except_KeyError_def intro!: frame_setattr split: sum.splits error.splits)

lemma Track_set_album_frame: "Track_set_album s j = Inr s' \<Longrightarrow> frame {''album''} s s'"
  by (auto simp: Track_set_album_def ebind_eq_Inr intro!: frame_setattr split: if_splits)

lemma Track_set_steps:
  assumes "Track_set s j = Inr s'"
  obtains s1 n u pu price num dur s2 s3 where
    "Item_set s j = Inr s1"
    "s2 = setattr (setattr (setattr (setattr (setattr (setattr s1
                     ''name'' (Json n)) ''url'' (Json u)) ''preview_url'' (Json pu))
                     ''price'' (Json price)) ''number'' (Json num)) ''duration'' (Json dur)"
    "except_KeyError s2 ''artist'' (Track_set_artist s2 j) = Inr s3"
    "except_KeyError s3 ''album'' (Track_set_album s3 j) = Inr s'"
  using assms by (auto simp: Track_set_def Let_def ebind_eq_Inr)

lemma Track_set_frame:
  assumes "Track_set s j = Inr s'"
  shows "frame track_keys s s'"
  using assms
proof (rule Track_set_steps)
  fix s1 n u pu price num dur s2 s3
  assume 1: "Item_set s j = Inr s1"
    and 2: "s2 = setattr (setattr (setattr (setattr (setattr (setattr s1
                     ''name'' (Json n)) ''url'' (Json u)) ''preview_url'' (Json pu))
                     ''price'' (Json price)) ''number'' (Json num)) ''duration'' (Json dur)"
    and 3: "except_KeyError s2 ''artist'' (Track_set_artist s2 j) = Inr s3"
    and 4: "except_KeyError s3 ''album'' (Track_set_album s3 j) = Inr s'"
  have f3: "frame {''artist''} s2 s3"
    using 3 by (rule except_KeyError_frame) (simp add: Track_set_artist_def set_artist_frame)
  have f4: "frame {''album''} s3 s'"
    using 4 by (rule except_KeyError_frame) (simp add: Track_set_album_frame)
  from Item_set_frame[OF 1] f3 f4 show ?thesis
    unfolding 2 by (auto simp: frame_def track_keys_def item_keys_def)
qed

lemma obj_set_same:
  assumes "obj_set s j = Inr s'"
  shows "cls_of s' = cls_of s \<and> id_of s' = id_of s"
  using assms Item_set_frame[of s j s'] Artist_set_frame[of s j s'] Album_set_frame[of s j s']
    Track_set_frame[of s j s']
  by (auto simp: obj_set_def frame_def split: cls.splits)

section \<open>Equality of items\<close>

text \<open>
  Claim C9. For every item \<open>x\<close>, both \<^verbatim>\<open>x == None\<close> and \<^verbatim>\<open>x != None\<close> evaluate to
  \<^verbatim>\<open>False\<close>: \<^verbatim>\<open>__ne__\<close> returns \<^verbatim>\<open>False\<close> on \<^verbatim>\<open>None\<close> just as \<^verbatim>\<open>__eq__\<close> does, so
  here \<^verbatim>\<open>!=\<close> is not the negation of \<^verbatim>\<open>==\<close>.
\<close>
theorem Item_eq_ne_None:
  "Item_eq x (Json JNull) = Inr False \<and> Item_ne x (Json JNull) = Inr False"
  by simp

section \<open>The price of an album\<close>



text \<open>
  Claim C6. For two instances \<open>x\<close> and \<open>y\<close>, \<^verbatim>\<open>x == y\<close> is the value of
  \<^verbatim>\<open>x.id == y.id\<close>; in particular, for instances of any classes populated from any two
  records, it is the comparison of the identifiers they were constructed with, whatever
  else the records hold.
\<close>
theorem Item_eq_iff_same_id:
  "Item_eq x (Obj y) = Inr (py_eq (id_of x) (id_of y)) \<and>
   (obj_set (Item_init c i) j = Inr x \<and> obj_set (Item_init c' i') j' = Inr y
      \<longrightarrow> Item_eq x (Obj y) = Inr (py_eq i i'))"
proof -
  have "id_of x = i \<and> id_of y = i'"
    if "obj_set (Item_init c i) j = Inr x" "obj_set (Item_init c' i') j' = Inr y"
    using obj_set_same[OF that(1)] obj_set_same[OF that(2)] by (simp add: Item_init_def)
  then show ?thesis by auto
qed

theorem Item_eq_iff_same_id_witness:
  "\<exists>x y. obj_set (Item_init Item (JInt 401)) audiobook_record = Inr x
     \<and> obj_set (Item_init Album (JInt 401)) (album_record (JFloat (3996 / 1000))) = Inr y
     \<and> Item_eq x (Obj y) = Inr True"
proof -
  have "case obj_set (Item_init Item (JInt 401)) audiobook_record of
          Inl e \<Rightarrow> False | Inr a \<Rightarrow> True"
    by code_simp
  then obtain x where x: "obj_set (Item_init Item (JInt 401)) audiobook_record = Inr x"
    by (auto split: sum.splits)
  have "case obj_set (Item_init Album (JInt 401)) (album_record (JFloat (3996 / 1000))) of
          Inl e \<Rightarrow> False | Inr a \<Rightarrow> True"
    by code_simp
  then obtain y where y:
    "obj_set (Item_init Album (JInt 401)) (album_record (JFloat (3996 / 1000))) = Inr y"
    by (auto split: sum.splits)
  from Item_eq_iff_same_id[of x y Item "JInt 401" audiobook_record Album "JInt 401"
      "album_record (JFloat (3996 / 1000))"] x y
  have "Item_eq x (Obj y) = Inr True" by simp
  with x y show ?thesis by blast
qed

section \<open>Search parameters and the offset\<close>

lemma Search_init_Inr:
  assumes "py_gt0 offset = Inr pos"
  shows "Search_init query country media entity attribute offset limit order lang
             version explicit =
    Inr (Query ''search''
      (AList.update ''explicit'' explicit
        (AList.update ''version'' version
        (AList.update ''lang'' lang
        ((if order \<noteq> JNull then AList.update ''order'' order else id)
        ((if pos then AList.update ''offset'' offset else id)
        (AList.update ''limit'' limit
        ((if truthy attribute then AList.update ''attribute'' attribute else id)
        ((if truthy entity then AList.update ''entity'' entity else id)
        (AList.update ''media'' media
        (AList.update ''country'' country
        (AList.update ''term'' query
        []))))))))))))"
  using assms unfolding Search_init_def Let_def by simp

lemma Search_init_terms:
  assumes "py_gt0 offset = Inr pos"
  shows "\<exists>q. Search_init query country media entity attribute offset limit order lang
             version explicit = Inr q
           \<and> method_of q = ''search''
           \<and> map_of (search_terms q) ''offset'' = (if pos then Some offset else None)
           \<and> map_of (search_terms q) ''limit'' = Some limit
           \<and> fst ` set (search_terms q) \<subseteq> search_keys"
  unfolding Search_init_Inr[OF assms]
  by (simp add: update_conv' dom_update search_keys_def)

lemma map_of_fold_params:
  "map_of (fold (\<lambda>key params.
             case map_of t key of None \<Rightarrow> params | Some v \<Rightarrow> AList.update key v params) ks acc) k
   = (if k \<in> set ks \<and> map_of t k \<noteq> None then map_of t k else map_of acc k)"
  by (induction ks arbitrary: acc) (auto simp: update_conv' split: option.splits)

lemma map_of_get_params: "map_of (BaseObject_get_params q) = map_of (search_terms q)"
proof
  fix k
  show "map_of (BaseObject_get_params q) k = map_of (search_terms q) k"
    unfolding BaseObject_get_params_def map_of_fold_params
    using map_of_eq_None_iff[of "search_terms q" k] by auto
qed

lemma keys_get_params: "fst ` set (BaseObject_get_params q) = fst ` set (search_terms q)"
proof -
  have "dom (map_of (BaseObject_get_params q)) = dom (map_of (search_terms q))"
    by (simp add: map_of_get_params)
  then show ?thesis by (simp add: dom_map_of_conv_image_fst)
qed

lemma Request_data_names:
  "Request_data str_of quote_plus params names = Inr data \<Longrightarrow>
     list_all2 (\<lambda>seg name. \<exists>v. seg = name @ ''='' @ v) data names"
proof (induction names arbitrary: data)
  case Nil
  then show ?case by simp
next
  case (Cons name names)
  from Cons.prems obtain v s rest where
    "Request_data str_of quote_plus params names = Inr rest"
    "data = (name @ ''='' @ quote_plus (replace_amp s)) # rest"
    by (auto simp: ebind_eq_Inr split: option.splits)
  with Cons.IH[of rest] show ?case by auto
qed

lemma offset_segment:
  "name \<in> search_keys \<Longrightarrow> take 7 (name @ ''='' @ v) = ''offset='' \<longleftrightarrow> name = ''offset''"
  by (auto simp: search_keys_def)

lemma segments_offset:
  assumes l: "list_all2 (\<lambda>seg name. \<exists>v. seg = name @ ''='' @ v) data names"
    and keys: "set names \<subseteq> search_keys"
  shows "(\<exists>seg \<in> set data. take 7 seg = ''offset='') \<longleftrightarrow> ''offset'' \<in> set names"
proof
  assume "\<exists>seg \<in> set data. take 7 seg = ''offset=''"
  then obtain i where i: "i < length data" "take 7 (data ! i) = ''offset=''"
    by (auto simp: in_set_conv_nth)
  from l have len: "length data = length names" by (rule list_all2_lengthD)
  from list_all2_nthD[OF l i(1)] obtain v where v: "data ! i = names ! i @ ''='' @ v"
    by blast
  have "names ! i \<in> search_keys" using keys i(1) len by (auto dest: nth_mem)
  from offset_segment[OF this, of v] i(2) v have "names ! i = ''offset''" by simp
  then show "''offset'' \<in> set names" using i(1) len by (metis nth_mem)
next
  assume "''offset'' \<in> set names"
  then obtain i where i: "i < length names" "names ! i = ''offset''"
    by (auto simp: in_set_conv_nth)
  from l have len: "length data = length names" by (rule list_all2_lengthD)
  from list_all2_nthD2[OF l i(1)] i(2) obtain v where "data ! i = ''offset'' @ ''='' @ v"
    by auto
  then have "take 7 (data ! i) = ''offset=''" by simp
  then show "\<exists>seg \<in> set data. take 7 seg = ''offset=''"
    using i(1) len by (metis nth_mem)
qed

lemma Search_offset_general:
  assumes "py_gt0 offset = Inr pos"
  shows "\<exists>q. Search_init query country media entity attribute offset limit order lang
             version explicit = Inr q
           \<and> map_of (BaseObject_get_params q) ''offset'' = (if pos then Some offset else None)
           \<and> (''offset'' \<in> fst ` set (BaseObject_get_params q) \<longleftrightarrow> pos)
           \<and> (\<forall>data. Request_data str_of quote_plus (BaseObject_get_params q)
                        (map fst (BaseObject_get_params q)) = Inr data
                  \<longrightarrow> ((\<exists>seg \<in> set data. take 7 seg = ''offset='') \<longleftrightarrow> pos))"
proof -
  from Search_init_terms[OF assms] obtain q where
    q: "Search_init query country media entity attribute offset limit order lang
             version explicit = Inr q"
    and off: "map_of (search_terms q) ''offset'' = (if pos then Some offset else None)"
    and keys: "fst ` set (search_terms q) \<subseteq> search_keys"
    by blast
  let ?p = "BaseObject_get_params q"
  have off': "map_of ?p ''offset'' = (if pos then Some offset else None)"
    using off by (simp add: map_of_get_params)
  have keys': "set (map fst ?p) \<subseteq> search_keys"
    using keys keys_get_params[of q] by simp
  have mem: "''offset'' \<in> fst ` set ?p \<longleftrightarrow> pos"
    using off' map_of_eq_None_iff[of ?p "''offset''"] by (cases pos) auto
  have seg: "(\<exists>seg \<in> set data. take 7 seg = ''offset='') \<longleftrightarrow> pos"
    if d: "Request_data str_of quote_plus ?p (map fst ?p) = Inr data" for data
    using segments_offset[OF Request_data_names[OF d] keys'] mem by simp
  from q off' mem seg show ?thesis by blast
qed

text \<open>
  Claim C7. A \<^verbatim>\<open>Search\<close> constructed with an integer or float offset that is zero or
  negative has no \<^verbatim>\<open>offset\<close> key in the parameters it sends, and no segment
  \<^verbatim>\<open>offset=...\<close> in the query string built from them; with a positive offset the key
  is bound to the offset, and the query string has such a segment.
\<close>
theorem Search_offset_omitted:
  "(\<exists>q. Search_init query country media entity attribute (JInt n) limit order lang
            version explicit = Inr q
        \<and> map_of (BaseObject_get_params q) ''offset'' = (if 0 < n then Some (JInt n) else None)
        \<and> (''offset'' \<in> fst ` set (BaseObject_get_params q) \<longleftrightarrow> 0 < n)
        \<and> (\<forall>data. Request_data str_of quote_plus (BaseObject_get_params q)
                     (map fst (BaseObject_get_params q)) = Inr data
               \<longrightarrow> ((\<exists>seg \<in> set data. take 7 seg = ''offset='') \<longleftrightarrow> 0 < n))) \<and>
   (\<exists>q. Search_init query country media entity attribute (JFloat r) limit order lang
            version explicit = Inr q
        \<and> map_of (BaseObject_get_params q) ''offset'' = (if 0 < r then Some (JFloat r) else None)
        \<and> (''offset'' \<in> fst ` set (BaseObject_get_params q) \<longleftrightarrow> 0 < r)
        \<and> (\<forall>data. Request_data str_of quote_plus (BaseObject_get_params q)
                     (map fst (BaseObject_get_params q)) = Inr data
               \<longrightarrow> ((\<exists>seg \<in> set data. take 7 seg = ''offset='') \<longleftrightarrow> 0 < r)))"
  using Search_offset_general[of "JInt n" "0 < n" query country media entity attribute limit
      order lang version explicit str_of quote_plus]
    Search_offset_general[of "JFloat r" "0 < r" query country media entity attribute limit
      order lang version explicit str_of quote_plus]
  by simp

theorem Search_offset_omitted_witness:
  "\<exists>q data. Search_init (JStr ''Abbey Road'') (JStr ''US'') (JStr ''music'') (JStr ''album'') JNull
        (JInt 0) (JInt 50) JNull (JStr ''en_us'') (JStr ''2'') (JStr ''Yes'') = Inr q
     \<and> Request_data (\<lambda>v. ''50'') (\<lambda>s. s) (BaseObject_get_params q)
          (map fst (BaseObject_get_params q)) = Inr data
     \<and> ''offset'' \<notin> fst ` set (BaseObject_get_params q)
     \<and> \<not> (\<exists>seg \<in> set data. take 7 seg = ''offset='')"
proof -
  let ?S = "Search_init (JStr ''Abbey Road'') (JStr ''US'') (JStr ''music'') (JStr ''album'') JNull
        (JInt 0) (JInt 50) JNull (JStr ''en_us'') (JStr ''2'') (JStr ''Yes'')"
  let ?q = "Query ''search'' [(''term'', JStr ''Abbey Road''), (''country'', JStr ''US''),
      (''media'', JStr ''music''), (''entity'', JStr ''album''), (''limit'', JInt 50),
      (''lang'', JStr ''en_us''), (''version'', JStr ''2''), (''explicit'', JStr ''Yes'')]"
  have S: "?S = Inr ?q"
    by code_simp
  have D: "Request_data (\<lambda>v. ''50'') (\<lambda>s. s) (BaseObject_get_params ?q)
          (map fst (BaseObject_get_params ?q)) =
        Inr [''term=Abbey Road'', ''country=US'', ''media=music'', ''entity=album'',
          ''limit=50'', ''lang=en_us'', ''version=2'', ''explicit=Yes'']"
    by code_simp
  from Search_offset_omitted[of "JStr ''Abbey Road''" "JStr ''US''" "JStr ''music''"
      "JStr ''album''" JNull 0 "JInt 50" JNull "JStr ''en_us''" "JStr ''2''" "JStr ''Yes''"
      "\<lambda>v. ''50''" "\<lambda>s. s"]
  have "''offset'' \<notin> fst ` set (BaseObject_get_params ?q)
      \<and> (\<forall>data. Request_data (\<lambda>v. ''50'') (\<lambda>s. s) (BaseObject_get_params ?q)
                     (map fst (BaseObject_get_params ?q)) = Inr data
               \<longrightarrow> \<not> (\<exists>seg \<in> set data. take 7 seg = ''offset=''))"
    unfolding S by simp
  with S D show ?thesis by blast
qed

section \<open>The dispatcher\<close>

lemma Item_set_dict:
  assumes "Item_set s j = Inr s'"
  shows "\<exists>d. j = JDict d \<and> (map_of d ''kind'' \<noteq> None \<or> map_of d ''wrapperType'' \<noteq> None)"
proof -
  from assms obtain t where
    "py_contains j ''kind'' = Inr True \<and> py_getitem j ''kind'' = Inr t
       \<or> py_contains j ''kind'' = Inr False \<and> py_getitem j ''wrapperType'' = Inr t"
    by (rule Item_set_steps)
  then show ?thesis
    by (cases j) (auto split: option.splits)
qed

lemma obj_set_Item_set: "obj_set s j = Inr s' \<Longrightarrow> \<exists>s1. Item_set s j = Inr s1"
  by (auto simp: obj_set_def Artist_set_def Album_set_def Track_set_def ebind_eq_Inr
      split: cls.splits)

lemma Artist_set_json:
  assumes "Artist_set s j = Inr s'"
  shows "getattr s' ''json'' = Inr (Json j)"
proof -
  from assms obtain s1 n amg u where
    1: "Item_set s j = Inr s1"
    and 2: "s' = setattr (setattr (setattr s1 ''name'' (Json n)) ''amg_id'' (Json amg)) ''url'' (Json u)"
    by (auto simp: Artist_set_def ebind_eq_Inr)
  from Item_set_json[OF 1] show ?thesis unfolding 2 by simp
qed

lemma Album_set_json:
  assumes "Album_set s j = Inr s'"
  shows "getattr s' ''json'' = Inr (Json j)"
  using assms
proof (rule Album_set_steps)
  fix s1 n u amg p price cur tc cr
  assume 1: "Item_set s j = Inr s1"
    and a: "set_artist
         (setattr (setattr (setattr (setattr (setattr (setattr (setattr s1
            ''name'' (Json n)) ''url'' (Json u)) ''amg_id'' (Json amg)) ''price'' (Json price))
            ''price_currency'' (Json cur)) ''track_count'' (Json tc)) ''copyright'' (Json cr))
         j = Inr s'"
  from Item_set_json[OF 1] set_artist_frame[OF a] show ?thesis
    by (simp add: frame_def)
qed

lemma Track_set_json:
  assumes "Track_set s j = Inr s'"
  shows "getattr s' ''json'' = Inr (Json j)"
  using assms
proof (rule Track_set_steps)
  fix s1 n u pu price num dur s2 s3
  assume 1: "Item_set s j = Inr s1"
    and 2: "s2 = setattr (setattr (setattr (setattr (setattr (setattr s1
                     ''name'' (Json n)) ''url'' (Json u)) ''preview_url'' (Json pu))
                     ''price'' (Json price)) ''number'' (Json num)) ''duration'' (Json dur)"
    and 3: "except_KeyError s2 ''artist'' (Track_set_artist s2 j) = Inr s3"
    and 4: "except_KeyError s3 ''album'' (Track_set_album s3 j) = Inr s'"
  have f3: "frame {''artist''} s2 s3"
    using 3 by (rule except_KeyError_frame) (simp add: Track_set_artist_def set_artist_frame)
  have f4: "frame {''album''} s3 s'"
    using 4 by (rule except_KeyError_frame) (simp add: Track_set_album_frame)
  from Item_set_json[OF 1] f3 f4 show ?thesis
    unfolding 2 by (simp add: frame_def)
qed

lemma obj_set_json: "obj_set s j = Inr s' \<Longrightarrow> getattr s' ''json'' = Inr (Json j)"
  by (auto simp: obj_set_def Item_set_json Artist_set_json Album_set_json Track_set_json
      split: cls.splits)

lemma obj_set_new:
  assumes "obj_set (Item_init c i) r = Inr it"
  shows "\<exists>d. r = JDict d \<and> (map_of d ''kind'' \<noteq> None \<or> map_of d ''wrapperType'' \<noteq> None)
           \<and> cls_of it = c \<and> id_of it = i \<and> getattr it ''json'' = Inr (Json r)"
proof -
  from obj_set_Item_set[OF assms] Item_set_dict obtain d where
    "r = JDict d" "map_of d ''kind'' \<noteq> None \<or> map_of d ''wrapperType'' \<noteq> None"
    by blast
  with obj_set_same[OF assms] obj_set_json[OF assms] show ?thesis
    by (simp add: Item_init_def)
qed

lemma entry_type_dict: "entry_type (JDict d) = Inr (entry_tag d)"
  by (simp add: entry_type_def split: option.splits)

lemma fallback_id_dict:
  "fallback_id idv (JDict d) =
     Inr (case map_of d ''collectionId'' of
            Some c \<Rightarrow> Some c
          | None \<Rightarrow> (case map_of d ''artistId'' of Some a \<Rightarrow> Some a | None \<Rightarrow> idv))"
  by (simp add: fallback_id_def split: option.splits)

lemma get_entry_dispatched:
  assumes "get_entry idv r = Inr (idv', it)"
  shows "dispatched r it \<and> idv' \<noteq> None"
proof -
  from assms obtain c i where o: "obj_set (Item_init c i) r = Inr it"
    by (auto simp: get_entry_def ebind_eq_Inr split: if_splits option.splits)
  from obj_set_new[OF o] obtain d where d: "r = JDict d"
    and k: "map_of d ''kind'' \<noteq> None \<or> map_of d ''wrapperType'' \<noteq> None"
    and j: "getattr it ''json'' = Inr (Json (JDict d))"
    by blast
  have e: "get_entry idv (JDict d) = Inr (idv', it)"
    using assms d by simp
  consider (artist) "entry_tag d = JStr ''artist''"
    | (collection) "entry_tag d = JStr ''collection''"
    | (track) "entry_tag d = JStr ''track''"
    | (other) "entry_tag d \<notin> {JStr ''artist'', JStr ''collection'', JStr ''track''}"
    by blast
  then have "idv' \<noteq> None \<and>
        (entry_tag d = JStr ''artist''
           \<longrightarrow> cls_of it = Artist \<and> map_of d ''artistId'' = Some (id_of it)) \<and>
        (entry_tag d = JStr ''collection''
           \<longrightarrow> cls_of it = Album \<and> map_of d ''collectionId'' = Some (id_of it)) \<and>
        (entry_tag d = JStr ''track''
           \<longrightarrow> cls_of it = Track \<and> map_of d ''trackId'' = Some (id_of it)) \<and>
        (entry_tag d \<notin> {JStr ''artist'', JStr ''collection'', JStr ''track''}
           \<longrightarrow> cls_of it = Item \<and>
               (case map_of d ''collectionId'' of
                  Some c \<Rightarrow> id_of it = c
                | None \<Rightarrow> (case map_of d ''artistId'' of Some a \<Rightarrow> id_of it = a | None \<Rightarrow> True)))"
  proof cases
    case artist
    with e obtain x where "py_getitem (JDict d) ''artistId'' = Inr x"
      "obj_set (Item_init Artist x) (JDict d) = Inr it" "idv' = Some x"
      unfolding get_entry_def entry_type_dict by (auto simp: ebind_eq_Inr)
    with artist obj_set_new[of Artist x "JDict d" it] show ?thesis
      by (auto split: option.splits)
  next
    case collection
    with e obtain x where "py_getitem (JDict d) ''collectionId'' = Inr x"
      "obj_set (Item_init Album x) (JDict d) = Inr it" "idv' = Some x"
      unfolding get_entry_def entry_type_dict by (auto simp: ebind_eq_Inr)
    with collection obj_set_new[of Album x "JDict d" it] show ?thesis
      by (auto split: option.splits)
  next
    case track
    with e obtain x where "py_getitem (JDict d) ''trackId'' = Inr x"
      "obj_set (Item_init Track x) (JDict d) = Inr it" "idv' = Some x"
      unfolding get_entry_def entry_type_dict by (auto simp: ebind_eq_Inr)
    with track obj_set_new[of Track x "JDict d" it] show ?thesis
      by (auto split: option.splits)
  next
    case other
    with e obtain x where
      "(case map_of d ''collectionId'' of
            Some c \<Rightarrow> Some c
          | None \<Rightarrow> (case map_of d ''artistId'' of Some a \<Rightarrow> Some a | None \<Rightarrow> idv)) = Some x"
      "obj_set (Item_init Item x) (JDict d) = Inr it" "idv' = Some x"
      unfolding get_entry_def entry_type_dict fallback_id_dict
      by (auto simp: ebind_eq_Inr split: option.splits)
    with other obj_set_new[of Item x "JDict d" it] show ?thesis
      by (auto split: option.splits)
  qed
  with d j k show ?thesis by blast
qed



lemma BaseObject_get_response:
  assumes "BaseObject_request srv q = Inr (JDict resp)"
    "map_of resp ''errorMessage'' = None"
    "map_of resp ''resultCount'' = Some n"
    "map_of resp ''results'' = Some (JList rs)"
  shows "BaseObject_get srv q = get_loop None rs"
  using assms by (simp add: BaseObject_get_def)





section \<open>Entries without any identifying field\<close>

lemma Item_set_untagged:
  assumes "map_of d ''wrapperType'' = None" "map_of d ''kind'' = None"
  shows "Item_set s (JDict d) = Inl (KeyError ''wrapperType'')"
  using assms by (simp add: Item_set_def)

lemma get_entry_unidentified:
  assumes "map_of d ''wrapperType'' = None" "map_of d ''kind'' = None"
    "map_of d ''collectionId'' = None" "map_of d ''artistId'' = None"
  shows "get_entry idv (JDict d) =
     (case idv of None \<Rightarrow> Inl (UnboundLocalError ''id'') | Some i \<Rightarrow> Inl (KeyError ''wrapperType''))"
  using assms
  by (simp add: get_entry_def entry_type_dict fallback_id_dict obj_set_def Item_init_def
      Item_set_untagged split: option.splits)

lemma get_loop_unidentified_fails:
  assumes "map_of d ''wrapperType'' = None" "map_of d ''kind'' = None"
    "map_of d ''collectionId'' = None" "map_of d ''artistId'' = None"
  shows "JDict d \<in> set rs \<Longrightarrow> \<exists>e. get_loop idv rs = Inl e"
proof (induction rs arbitrary: idv)
  case Nil
  then show ?case by simp
next
  case (Cons r rs)
  show ?case
  proof (cases "get_entry idv r")
    case (Inl e)
    then show ?thesis by simp
  next
    case (Inr p)
    obtain idv' it where p: "p = (idv', it)" by (cases p)
    have "r \<noteq> JDict d"
      using Inr get_entry_unidentified[OF assms, of idv] by (auto split: option.splits)
    with Cons.prems have "JDict d \<in> set rs" by simp
    from Cons.IH[OF this, of idv'] obtain e where "get_loop idv' rs = Inl e" by blast
    with Inr p show ?thesis by simp
  qed
qed

lemma get_loop_unidentified_later:
  assumes "map_of d ''wrapperType'' = None" "map_of d ''kind'' = None"
    "map_of d ''collectionId'' = None" "map_of d ''artistId'' = None"
  shows "get_loop idv pre = Inr items \<Longrightarrow> pre \<noteq> [] \<or> idv \<noteq> None \<Longrightarrow>
     get_loop idv (pre @ JDict d # rest) = Inl (KeyError ''wrapperType'')"
proof (induction pre arbitrary: idv items)
  case Nil
  then obtain i where "idv = Some i" by auto
  then show ?case
    using get_entry_unidentified[OF assms, of idv] by simp
next
  case (Cons r pre)
  from Cons.prems(1) obtain idv' it l where
    e: "get_entry idv r = Inr (idv', it)" and l: "get_loop idv' pre = Inr l"
    by (auto simp: ebind_eq_Inr)
  from get_entry_dispatched[OF e] have "idv' \<noteq> None" by simp
  from Cons.IH[OF l] this have "get_loop idv' (pre @ JDict d # rest) = Inl (KeyError ''wrapperType'')"
    by simp
  with e show ?case by simp
qed

text \<open>
  Claim C8, as stated, fails: after an entry that was dispatched, the variable
  \<^verbatim>\<open>id\<close> of \<^verbatim>\<open>get\<close> is still bound, so for a later entry without any of the four
  fields \<^verbatim>\<open>Item(id)\<close> is built with the stale identifier and \<^verbatim>\<open>get\<close> ends with the
  \<^verbatim>\<open>KeyError\<close> of \<^verbatim>\<open>Item._set\<close>, not with a name error.
\<close>
theorem get_unidentified_entry_counterexample:
  "BaseObject_get (\<lambda>m p. Inr (response [artist_record, JDict []]))
     (Lookup_init (JInt 9) JNull JNull (JInt 500)) = Inl (KeyError ''wrapperType'')
   \<and> BaseObject_get (\<lambda>m p. Inr (response [artist_record, JDict []]))
     (Lookup_init (JInt 9) JNull JNull (JInt 500)) \<noteq> Inl (UnboundLocalError ''id'')"
proof -
  have "BaseObject_get (\<lambda>m p. Inr (response [artist_record, JDict []]))
     (Lookup_init (JInt 9) JNull JNull (JInt 500)) = Inl (KeyError ''wrapperType'')"
    by code_simp
  then show ?thesis by simp
qed

text \<open>
  Claim C8, amended. Let an entry of the results array have none of the fields
  \<^verbatim>\<open>wrapperType\<close>, \<^verbatim>\<open>kind\<close>, \<^verbatim>\<open>collectionId\<close> and \<^verbatim>\<open>artistId\<close>. Then
  \<^verbatim>\<open>get\<close> returns no result list. If the entry is the first of the array, \<^verbatim>\<open>get\<close>
  fails with the unbound-name error for \<^verbatim>\<open>id\<close>. If it comes after entries that were
  all dispatched, \<^verbatim>\<open>get\<close> fails with \<^verbatim>\<open>KeyError('wrapperType')\<close>.
\<close>
theorem get_unidentified_entry:
  assumes "map_of d ''wrapperType'' = None" "map_of d ''kind'' = None"
    "map_of d ''collectionId'' = None" "map_of d ''artistId'' = None"
    and "BaseObject_request srv q = Inr (JDict resp)"
    and "map_of resp ''errorMessage'' = None"
    and "map_of resp ''resultCount'' = Some n"
    and "map_of resp ''results'' = Some (JList rs)"
  shows "(JDict d \<in> set rs \<longrightarrow> (\<exists>e. BaseObject_get srv q = Inl e)) \<and>
    (\<forall>rest. rs = JDict d # rest \<longrightarrow> BaseObject_get srv q = Inl (UnboundLocalError ''id'')) \<and>
    (\<forall>pre rest items. rs = pre @ JDict d # rest \<and> pre \<noteq> [] \<and> get_loop None pre = Inr items
        \<longrightarrow> BaseObject_get srv q = Inl (KeyError ''wrapperType''))"
proof -
  have g: "BaseObject_get srv q = get_loop None rs"
    using assms(5-8) by (rule BaseObject_get_response)
  have 1: "JDict d \<in> set rs \<longrightarrow> (\<exists>e. BaseObject_get srv q = Inl e)"
    unfolding g using get_loop_unidentified_fails[OF assms(1-4)] by blast
  have 2: "\<forall>rest. rs = JDict d # rest \<longrightarrow> BaseObject_get srv q = Inl (UnboundLocalError ''id'')"
    unfolding g using get_entry_unidentified[OF assms(1-4), of None] by auto
  have 3: "\<forall>pre rest items. rs = pre @ JDict d # rest \<and> pre \<noteq> [] \<and> get_loop None pre = Inr items
        \<longrightarrow> BaseObject_get srv q = Inl (KeyError ''wrapperType'')"
    unfolding g using get_loop_unidentified_later[OF assms(1-4)] by blast
  from 1 2 3 show ?thesis by blast
qed

theorem get_unidentified_entry_witness:
  "BaseObject_get (\<lambda>m p. Inr (response [JDict [(''country'', JStr ''USA'')], artist_record]))
     (Lookup_init (JInt 9) JNull JNull (JInt 500)) = Inl (UnboundLocalError ''id'')
   \<and> BaseObject_get
       (\<lambda>m p. Inr (response [artist_record, JDict [(''country'', JStr ''USA'')], artist_record]))
       (Lookup_init (JInt 9) JNull JNull (JInt 500)) = Inl (KeyError ''wrapperType'')"
proof -
  let ?bad = "[(''country'', JStr ''USA'')]"
  let ?q = "Lookup_init (JInt 9) JNull JNull (JInt 500)"
  let ?rs1 = "[JDict ?bad, artist_record]"
  let ?rs2 = "[artist_record, JDict ?bad, artist_record]"
  have h: "map_of ?bad ''wrapperType'' = None" "map_of ?bad ''kind'' = None"
    "map_of ?bad ''collectionId'' = None" "map_of ?bad ''artistId'' = None"
    by simp_all
  have pre: "case get_loop None [artist_record] of Inl e \<Rightarrow> False | Inr l \<Rightarrow> True"
    by code_simp
  then obtain items where items: "get_loop None [artist_record] = Inr items"
    by (auto split: sum.splits)
  have r1: "BaseObject_request (\<lambda>m p. Inr (response ?rs1)) ?q
      = Inr (JDict [(''resultCount'', JInt (int (length ?rs1))), (''results'', JList ?rs1)])"
    by (simp add: BaseObject_request_def response_def)
  have r2: "BaseObject_request (\<lambda>m p. Inr (response ?rs2)) ?q
      = Inr (JDict [(''resultCount'', JInt (int (length ?rs2))), (''results'', JList ?rs2)])"
    by (simp add: BaseObject_request_def response_def)
  have e: "map_of [(''resultCount'', c), (''results'', x)] ''errorMessage'' = None"
    "map_of [(''resultCount'', c), (''results'', x)] ''resultCount'' = Some c"
    "map_of [(''resultCount'', c), (''results'', x)] ''results'' = Some x" for c x :: json
    by simp_all
  note T1 = get_unidentified_entry[OF h r1 e, THEN conjunct2, THEN conjunct1, rule_format]
  note T2 = get_unidentified_entry[OF h r2 e, THEN conjunct2, THEN conjunct2, rule_format]
  have a: "BaseObject_get (\<lambda>m p. Inr (response ?rs1)) ?q = Inl (UnboundLocalError ''id'')"
    by (rule T1) (rule refl)
  have b: "BaseObject_get (\<lambda>m p. Inr (response ?rs2)) ?q = Inl (KeyError ''wrapperType'')"
  proof (rule T2)
    show "?rs2 = [artist_record] @ JDict ?bad # [artist_record] \<and> [artist_record] \<noteq> []
        \<and> get_loop None [artist_record] = Inr items"
      using items by simp
  qed
  from a b show ?thesis by (rule conjI)
qed

section \<open>Lookups and navigation\<close>

lemma Lookup_request:
  "BaseObject_request srv (Lookup_init i (JStr (c # cs)) JNull limit)
     = srv ''lookup'' [(''id'', i), (''entity'', JStr (c # cs)), (''limit'', limit)]"
  by (simp add: BaseObject_request_def Lookup_init_def BaseObject_get_params_def)

lemma type_is_Json:
  "getattr self ''type'' = Inr (Json t) \<Longrightarrow> type_is self s = Inr (t = JStr s)"
  by (simp add: type_is_def)

text \<open>
  Claim C4. The free function \<^verbatim>\<open>lookup\<close> raises \<^verbatim>\<open>ServiceException\<close> with the message
  \<^verbatim>\<open>Nothing found!\<close> when the response of the lookup query has an empty results array
  (the constructed list is then empty), and otherwise returns the first element of the
  constructed list.
\<close>
theorem lookup_first_or_nothing:
  "(BaseObject_request srv (Lookup_init i entity country limit) = Inr (JDict resp)
      \<and> map_of resp ''errorMessage'' = None \<and> map_of resp ''resultCount'' = Some n
      \<and> map_of resp ''results'' = Some (JList [])
      \<longrightarrow> lookup srv i entity country limit
            = Inl (ServiceException ''Error'' (JStr ''Nothing found!''))) \<and>
   (BaseObject_get srv (Lookup_init i entity country limit) = Inr []
      \<longrightarrow> lookup srv i entity country limit
            = Inl (ServiceException ''Error'' (JStr ''Nothing found!''))) \<and>
   (\<forall>x xs. BaseObject_get srv (Lookup_init i entity country limit) = Inr (x # xs)
      \<longrightarrow> lookup srv i entity country limit = Inr x)"
proof -
  have "BaseObject_get srv (Lookup_init i entity country limit) = Inr []"
    if "BaseObject_request srv (Lookup_init i entity country limit) = Inr (JDict resp)"
      "map_of resp ''errorMessage'' = None" "map_of resp ''resultCount'' = Some n"
      "map_of resp ''results'' = Some (JList [])"
    using BaseObject_get_response[OF that] by simp
  then show ?thesis
    by (auto simp: lookup_def Nothing_found_def)
qed

theorem lookup_first_or_nothing_witness:
  "lookup (\<lambda>m p. Inr (response [])) (JInt 401) JNull JNull (JInt 500)
     = Inl (ServiceException ''Error'' (JStr ''Nothing found!''))
   \<and> (\<exists>x y. BaseObject_get (\<lambda>m p. Inr (response [album_record JNull, track_record]))
                (Lookup_init (JInt 401) JNull JNull (JInt 500)) = Inr [x, y]
            \<and> lookup (\<lambda>m p. Inr (response [album_record JNull, track_record]))
                (JInt 401) JNull JNull (JInt 500) = Inr x)"
proof -
  let ?q = "Lookup_init (JInt 401) JNull JNull (JInt 500)"
  let ?srv = "\<lambda>m p. Inr (response [album_record JNull, track_record]) :: error + json"
  note T = lookup_first_or_nothing[of _ "JInt 401" JNull JNull "JInt 500"]
  have "BaseObject_request (\<lambda>m p. Inr (response [])) ?q
      = Inr (JDict [(''resultCount'', JInt 0), (''results'', JList [])])
    \<and> map_of [(''resultCount'', JInt 0), (''results'', JList [])] ''errorMessage'' = None
    \<and> map_of [(''resultCount'', JInt 0), (''results'', JList [])] ''resultCount'' = Some (JInt 0)
    \<and> map_of [(''resultCount'', JInt 0), (''results'', JList [])] ''results'' = Some (JList [])"
    by (simp add: BaseObject_request_def response_def)
  from T[THEN conjunct1, rule_format, OF this]
  have a: "lookup (\<lambda>m p. Inr (response [])) (JInt 401) JNull JNull (JInt 500)
     = Inl (ServiceException ''Error'' (JStr ''Nothing found!''))" .
  have "case BaseObject_get ?srv ?q of Inr [x, y] \<Rightarrow> True | _ \<Rightarrow> False"
    by code_simp
  then obtain x y where g: "BaseObject_get ?srv ?q = Inr [x, y]"
    by (auto split: sum.splits list.splits)
  from T[THEN conjunct2, THEN conjunct2, rule_format, OF g]
  have "lookup ?srv (JInt 401) JNull JNull (JInt 500) = Inr x" .
  with a g show ?thesis by blast
qed



text \<open>
  Claim C2. For an item whose \<^verbatim>\<open>type\<close> is neither \<^verbatim>\<open>collection\<close> nor \<^verbatim>\<open>song\<close>,
  \<^verbatim>\<open>get_albums\<close> sends a \<^verbatim>\<open>lookup\<close> request with the item's identifier, the entity
  \<^verbatim>\<open>album\<close> and the limit, and what it returns is the list of results without its first
  two elements (it raises \<^verbatim>\<open>Nothing found!\<close> when there are fewer than two results).
  For the type \<^verbatim>\<open>collection\<close> it returns the item itself, and for \<^verbatim>\<open>song\<close> whatever
  \<^verbatim>\<open>get_album\<close> returns or raises.
\<close>
theorem get_albums_drops_two:
  assumes "getattr self ''type'' = Inr (Json t)"
  shows "(t = JStr ''collection'' \<longrightarrow> Item_get_albums srv self limit = Inr (One self)) \<and>
    (t = JStr ''song'' \<longrightarrow> Item_get_albums srv self limit =
       (case Item_get_album srv self of Inl e \<Rightarrow> Inl e | Inr a \<Rightarrow> Inr (One a))) \<and>
    (t \<noteq> JStr ''collection'' \<and> t \<noteq> JStr ''song'' \<longrightarrow> Item_get_albums srv self limit =
       (case BaseObject_get srv (Lookup_init (id_of self) (JStr ''album'') JNull limit) of
          Inl e \<Rightarrow> Inl e
        | Inr items \<Rightarrow>
            if length items \<le> 1 then Inl (ServiceException ''Error'' (JStr ''Nothing found!''))
            else Inr (Several (drop 2 items)))) \<and>
    BaseObject_request srv (Lookup_init (id_of self) (JStr ''album'') JNull limit)
      = srv ''lookup'' [(''id'', id_of self), (''entity'', JStr ''album''), (''limit'', limit)]"
proof -
  have d: "drop (Suc 0) xs = [] \<longleftrightarrow> length xs \<le> 1" for xs :: "obj list"
    by (cases xs) auto
  show ?thesis
    using type_is_Json[OF assms, of "''song''"] type_is_Json[OF assms, of "''collection''"]
    by (auto simp: Item_get_albums_def Nothing_found_def Lookup_request Let_def d numeral_2_eq_2
        split: sum.splits)
qed

theorem get_albums_drops_two_witness:
  "Item_get_albums (\<lambda>m p. Inl (TransportError ''offline''))
       (typed_item Album (JInt 401) ''collection'') (JInt 500)
     = Inr (One (typed_item Album (JInt 401) ''collection''))
   \<and> (\<exists>x y z. BaseObject_get
         (\<lambda>m p. Inr (response [artist_record, album_record JNull, album_record (JInt 7)]))
         (Lookup_init (JInt 9) (JStr ''album'') JNull (JInt 500)) = Inr [x, y, z]
       \<and> Item_get_albums
         (\<lambda>m p. Inr (response [artist_record, album_record JNull, album_record (JInt 7)]))
         (typed_item Artist (JInt 9) ''artist'') (JInt 500) = Inr (Several [z]))"
proof -
  let ?album = "typed_item Album (JInt 401) ''collection''"
  let ?artist = "typed_item Artist (JInt 9) ''artist''"
  let ?srv = "\<lambda>m p. Inr (response [artist_record, album_record JNull, album_record (JInt 7)])
    :: error + json"
  have ta: "getattr ?album ''type'' = Inr (Json (JStr ''collection''))"
    and tr: "getattr ?artist ''type'' = Inr (Json (JStr ''artist''))"
    and ir: "id_of ?artist = JInt 9"
    by (simp_all add: typed_item_def Item_init_def)
  from get_albums_drops_two[OF ta, of "\<lambda>m p. Inl (TransportError ''offline'')" "JInt 500"]
  have a: "Item_get_albums (\<lambda>m p. Inl (TransportError ''offline'')) ?album (JInt 500)
      = Inr (One ?album)" by simp
  have "case BaseObject_get ?srv (Lookup_init (JInt 9) (JStr ''album'') JNull (JInt 500)) of
      Inr [x, y, z] \<Rightarrow> True | _ \<Rightarrow> False"
    by code_simp
  then obtain x y z where g:
    "BaseObject_get ?srv (Lookup_init (JInt 9) (JStr ''album'') JNull (JInt 500)) = Inr [x, y, z]"
    by (auto split: sum.splits list.splits)
  with get_albums_drops_two[OF tr, of ?srv "JInt 500"]
  have "Item_get_albums ?srv ?artist (JInt 500) = Inr (Several [z])"
    by (simp add: ir)
  with a g show ?thesis by blast
qed

section \<open>The album of a track\<close>

lemma Track_set_album_cases:
  assumes "getattr s ''album'' = Inl (AttributeError ''album'')"
    and "except_KeyError s ''album'' (Track_set_album s (JDict d)) = Inr tr"
  shows "(map_of d ''collectionId'' = None
            \<longrightarrow> getattr tr ''album'' = Inl (AttributeError ''album'')) \<and>
    (\<forall>i. map_of d ''collectionId'' = Some i \<longrightarrow>
       getattr tr ''album'' =
         (case Album_set (Item_init Album i) (JDict d) of
            Inl e \<Rightarrow> Inr (Json JNull)
          | Inr alb \<Rightarrow> Inr (Obj alb))
       \<and> (\<forall>e. Album_set (Item_init Album i) (JDict d) = Inl e \<longrightarrow> (\<exists>k. e = KeyError k)))"
proof (cases "map_of d ''collectionId''")
  case None
  with assms show ?thesis
    by (simp add: Track_set_album_def except_KeyError_def)
next
  case (Some i)
  show ?thesis
  proof (cases "Album_set (Item_init Album i) (JDict d)")
    case (Inl e)
    with assms(2) Some show ?thesis
      by (auto simp: Track_set_album_def except_KeyError_def split: error.splits)
  next
    case (Inr alb)
    with assms(2) Some show ?thesis
      by (auto simp: Track_set_album_def except_KeyError_def)
  qed
qed

lemma Track_set_before_album:
  assumes "Track_set (Item_init Track i0) j = Inr tr"
  obtains s3 where "getattr s3 ''album'' = Inl (AttributeError ''album'')"
    "except_KeyError s3 ''album'' (Track_set_album s3 j) = Inr tr"
  using assms
proof (rule Track_set_steps)
  fix s1 n u pu price num dur s2 s3
  assume 1: "Item_set (Item_init Track i0) j = Inr s1"
    and 2: "s2 = setattr (setattr (setattr (setattr (setattr (setattr s1
                     ''name'' (Json n)) ''url'' (Json u)) ''preview_url'' (Json pu))
                     ''price'' (Json price)) ''number'' (Json num)) ''duration'' (Json dur)"
    and 3: "except_KeyError s2 ''artist'' (Track_set_artist s2 j) = Inr s3"
    and 4: "except_KeyError s3 ''album'' (Track_set_album s3 j) = Inr tr"
  have f3: "frame {''artist''} s2 s3"
    using 3 by (rule except_KeyError_frame) (simp add: Track_set_artist_def set_artist_frame)
  have "getattr (Item_init Track i0) ''album'' = Inl (AttributeError ''album'')"
    by (simp add: Item_init_def getattr_def)
  with Item_set_frame[OF 1] f3 have "getattr s3 ''album'' = Inl (AttributeError ''album'')"
    unfolding 2 by (simp add: frame_def item_keys_def)
  with 4 that show ?thesis by blast
qed

text \<open>
  Claim C10. Let \<^verbatim>\<open>Track._set\<close> populate a fresh track from a record and return. If the
  record has no \<^verbatim>\<open>collectionId\<close>, the attribute \<^verbatim>\<open>album\<close> is never assigned: reading
  it is an \<^verbatim>\<open>AttributeError\<close>, it is not \<^verbatim>\<open>None\<close>. If the record has a
  \<^verbatim>\<open>collectionId\<close>, \<^verbatim>\<open>album\<close> is the album populated from the record when that
  population succeeds, and \<^verbatim>\<open>None\<close> when it raises, which it can only do with a
  \<^verbatim>\<open>KeyError\<close>.
\<close>
theorem Track_album_attribute:
  assumes "Track_set (Item_init Track i0) (JDict d) = Inr tr"
  shows "(map_of d ''collectionId'' = None
            \<longrightarrow> getattr tr ''album'' = Inl (AttributeError ''album'')) \<and>
    (\<forall>i. map_of d ''collectionId'' = Some i \<longrightarrow>
       getattr tr ''album'' =
         (case Album_set (Item_init Album i) (JDict d) of
            Inl e \<Rightarrow> Inr (Json JNull)
          | Inr alb \<Rightarrow> Inr (Obj alb))
       \<and> (\<forall>e. Album_set (Item_init Album i) (JDict d) = Inl e \<longrightarrow> (\<exists>k. e = KeyError k)))"
  using assms by (rule Track_set_before_album) (rule Track_set_album_cases)

theorem Track_album_attribute_witness:
  "(\<exists>tr. Track_set (Item_init Track (JInt 1002)) single_record = Inr tr
       \<and> getattr tr ''album'' = Inl (AttributeError ''album'')) \<and>
   (\<exists>tr. Track_set (Item_init Track (JInt 1003)) priceless_record = Inr tr
       \<and> getattr tr ''album'' = Inr (Json JNull)) \<and>
   (\<exists>tr alb. Track_set (Item_init Track (JInt 1001)) track_record = Inr tr
       \<and> getattr tr ''album'' = Inr (Obj alb) \<and> cls_of alb = Album \<and> id_of alb = JInt 401)"
proof -
  have "case Track_set (Item_init Track (JInt 1002)) single_record of
      Inl e \<Rightarrow> False | Inr tr \<Rightarrow> True"
    by code_simp
  then obtain t1 where t1: "Track_set (Item_init Track (JInt 1002)) single_record = Inr t1"
    by (auto split: sum.splits)
  have "case Track_set (Item_init Track (JInt 1003)) priceless_record of
      Inl e \<Rightarrow> False | Inr tr \<Rightarrow> True"
    by code_simp
  then obtain t2 where t2: "Track_set (Item_init Track (JInt 1003)) priceless_record = Inr t2"
    by (auto split: sum.splits)
  have "case Track_set (Item_init Track (JInt 1001)) track_record of
      Inl e \<Rightarrow> False | Inr tr \<Rightarrow> True"
    by code_simp
  then obtain t3 where t3: "Track_set (Item_init Track (JInt 1001)) track_record = Inr t3"
    by (auto split: sum.splits)
  have a2: "Album_set (Item_init Album (JInt 401)) priceless_record = Inl (KeyError ''currency'')"
    by code_simp
  have "case Album_set (Item_init Album (JInt 401)) track_record of
      Inl e \<Rightarrow> False | Inr a \<Rightarrow> True"
    by code_simp
  then obtain alb where a3: "Album_set (Item_init Album (JInt 401)) track_record = Inr alb"
    by (auto split: sum.splits)
  from Track_album_attribute[OF t1[unfolded single_record_def], THEN conjunct1]
  have g1: "getattr t1 ''album'' = Inl (AttributeError ''album'')"
    by simp
  from Track_album_attribute[OF t2[unfolded priceless_record_def], THEN conjunct2, rule_format,
      of "JInt 401", THEN conjunct1]
  have g2: "getattr t2 ''album'' = Inr (Json JNull)"
    using a2 by (simp add: priceless_record_def)
  from Track_album_attribute[OF t3[unfolded track_record_def], THEN conjunct2, rule_format,
      of "JInt 401", THEN conjunct1]
  have g3: "getattr t3 ''album'' = Inr (Obj alb)"
    using a3 by (simp add: track_record_def)
  from Album_set_frame[OF a3] have "cls_of alb = Album \<and> id_of alb = JInt 401"
    by (simp add: frame_def Item_init_def)
  with t1 t2 t3 g1 g2 g3 show ?thesis by blast
qed

end
